theory Spec2Isabelle
  imports Main
begin

section \<open>JavaScript values used by the scheduling services\<close>

text \<open>
  The services compute with JavaScript numbers. Every number that occurs in them is either a
  whole number of minutes, hours or milliseconds, or \<open>NaN\<close> (the result of converting a
  string that is no number, or of arithmetic on \<open>undefined\<close>). Whole numbers are modelled
  by \<open>int\<close>; this is exact as long as magnitudes stay below \<open>2^53\<close>, which times of day,
  durations in minutes and epoch milliseconds do.
\<close>

datatype jsnum = NaN | Fin int

fun js_add :: "jsnum \<Rightarrow> jsnum \<Rightarrow> jsnum" where
  "js_add (Fin a) (Fin b) = Fin (a + b)"
| "js_add _ _ = NaN"

fun js_sub :: "jsnum \<Rightarrow> jsnum \<Rightarrow> jsnum" where
  "js_sub (Fin a) (Fin b) = Fin (a - b)"
| "js_sub _ _ = NaN"

fun js_mul :: "jsnum \<Rightarrow> jsnum \<Rightarrow> jsnum" where
  "js_mul (Fin a) (Fin b) = Fin (a * b)"
| "js_mul _ _ = NaN"

text \<open>Every comparison with \<open>NaN\<close> is false.\<close>

fun js_less :: "jsnum \<Rightarrow> jsnum \<Rightarrow> bool" where
  "js_less (Fin a) (Fin b) = (a < b)"
| "js_less _ _ = False"

fun js_le :: "jsnum \<Rightarrow> jsnum \<Rightarrow> bool" where
  "js_le (Fin a) (Fin b) = (a \<le> b)"
| "js_le _ _ = False"

text \<open>\<open>a >= b\<close> is \<open>b <= a\<close>, also false with \<open>NaN\<close> on either side.\<close>

definition js_ge :: "jsnum \<Rightarrow> jsnum \<Rightarrow> bool" where
  "js_ge a b = js_le b a"

text \<open>
  The remainder operator \<open>%\<close> takes the sign of the dividend (\<open>-5 % 60\<close> is \<open>-5\<close>), unlike
  \<open>mod\<close> on \<open>int\<close>. \<open>Math.floor(a / 60)\<close> is \<open>a div 60\<close>, which rounds down as well.
\<close>

definition js_rem :: "int \<Rightarrow> int \<Rightarrow> int" where
  "js_rem a b = (if a < 0 then - ((- a) mod \<bar>b\<bar>) else a mod \<bar>b\<bar>)"

subsection \<open>Strings: split, Number, toString, padStart, toLowerCase\<close>

text \<open>\<open>s.split(':')\<close>: the pieces between the colons; always at least one piece.\<close>

fun split_colon :: "string \<Rightarrow> string list" where
  "split_colon [] = [[]]"
| "split_colon (c # cs) =
     (if c = CHR '':'' then [] # split_colon cs
      else (case split_colon cs of
              [] \<Rightarrow> [[c]]
            | p # ps \<Rightarrow> (c # p) # ps))"

definition is_digit :: "char \<Rightarrow> bool" where
  "is_digit c = (48 \<le> (of_char c :: nat) \<and> (of_char c :: nat) \<le> 57)"

definition digit_val :: "char \<Rightarrow> nat" where
  "digit_val c = of_char c - 48"

definition dec :: "string \<Rightarrow> nat" where
  "dec s = foldl (\<lambda>a c. 10 * a + digit_val c) 0 s"

text \<open>
  \<open>Number(s)\<close> on a string. The model covers the strings the time columns hold: the empty
  string converts to \<open>0\<close>, a string of ASCII decimal digits to its value (leading zeros
  allowed), and a string with any other character to \<open>NaN\<close>. Literals that JavaScript
  also accepts but that have another character in them (a sign, a fraction point, an exponent,
  a radix prefix, surrounding white space, \<open>Infinity\<close>) are outside the model: it gives
  \<open>NaN\<close> for them, and no property below is claimed for such strings.
\<close>

definition js_Number :: "string \<Rightarrow> jsnum" where
  "js_Number s = (if list_all is_digit s then Fin (int (dec s)) else NaN)"

text \<open>
  The destructuring \<open>const [a, b] = s.split(':').map(Number)\<close>: \<open>a\<close> and \<open>b\<close> are the first
  two converted pieces; a missing second piece is \<open>undefined\<close>, which arithmetic turns
  into \<open>NaN\<close>.
\<close>

definition first_two :: "string \<Rightarrow> jsnum \<times> jsnum" where
  "first_two s =
     (case map js_Number (split_colon s) of
        [] \<Rightarrow> (NaN, NaN)
      | [a] \<Rightarrow> (a, NaN)
      | a # b # _ \<Rightarrow> (a, b))"

text \<open>\<open>n.toString()\<close> for a whole number \<open>n\<close>.\<close>

fun nat_digits :: "nat \<Rightarrow> string" where
  "nat_digits n =
     (if n < 10 then [char_of (48 + n)]
      else nat_digits (n div 10) @ [char_of (48 + n mod 10)])"

declare nat_digits.simps [simp del]

definition toString :: "int \<Rightarrow> string" where
  "toString n = (if n < 0 then CHR ''-'' # nat_digits (nat (- n)) else nat_digits (nat n))"

text \<open>\<open>s.padStart(2, '0')\<close>.\<close>

definition padStart2 :: "string \<Rightarrow> string" where
  "padStart2 s = replicate (2 - length s) CHR ''0'' @ s"

text \<open>
  \<open>s.toLowerCase()\<close> on ASCII text: the letters \<open>A\<close> to \<open>Z\<close> move to \<open>a\<close> to \<open>z\<close>, every other
  character stays.
\<close>

definition lower_char :: "char \<Rightarrow> char" where
  "lower_char c =
     (if 65 \<le> (of_char c :: nat) \<and> (of_char c :: nat) \<le> 90
      then char_of ((of_char c :: nat) + 32) else c)"

definition toLowerCase :: "string \<Rightarrow> string" where
  "toLowerCase s = map lower_char s"

section \<open>AvailabilityService: time arithmetic and slot generation\<close>

record TimeSlot =
  start_time :: string
  end_time :: string
  available :: bool
  staff_member_id :: "nat option"

text \<open>\<open>timeStringToMinutes\<close>: split at the colon, convert, \<open>hours * 60 + minutes\<close>. No check.\<close>

definition timeStringToMinutes :: "string \<Rightarrow> jsnum" where
  "timeStringToMinutes timeStr =
     (case first_two timeStr of (hours, minutes) \<Rightarrow> js_add (js_mul hours (Fin 60)) minutes)"

definition timeSlotsOverlap :: "string \<Rightarrow> string \<Rightarrow> string \<Rightarrow> string \<Rightarrow> bool" where
  "timeSlotsOverlap slot1Start slot1End slot2Start slot2End =
     (let slot1StartMinutes = timeStringToMinutes slot1Start;
          slot1EndMinutes = timeStringToMinutes slot1End;
          slot2StartMinutes = timeStringToMinutes slot2Start;
          slot2EndMinutes = timeStringToMinutes slot2End
      in js_less slot1StartMinutes slot2EndMinutes \<and> js_less slot2StartMinutes slot1EndMinutes)"

text \<open>
  The test \<open>/^([01]?[0-9]|2[0-3]):[0-5][0-9]$/\<close> of \<open>validateBookingRequest\<close>: one hour digit,
  or two with the hour below 24, a colon, and two minute digits below 60.
\<close>

definition low_digit :: "nat \<Rightarrow> char \<Rightarrow> bool" where
  "low_digit k c = (48 \<le> (of_char c :: nat) \<and> (of_char c :: nat) \<le> 48 + k)"

fun time_format_ok :: "string \<Rightarrow> bool" where
  "time_format_ok [h, c, m1, m2] =
     (is_digit h \<and> c = CHR '':'' \<and> low_digit 5 m1 \<and> is_digit m2)"
| "time_format_ok [h1, h2, c, m1, m2] =
     (((low_digit 1 h1 \<and> is_digit h2) \<or> (h1 = CHR ''2'' \<and> low_digit 3 h2))
      \<and> c = CHR '':'' \<and> low_digit 5 m1 \<and> is_digit m2)"
| "time_format_ok _ = False"


text \<open>
  The body of the loop of \<open>generateTimeSlots\<close>: the slot that starts at minute
  \<open>currentMinutes\<close>, both ends formatted as \<open>HH:MM\<close>.
\<close>

definition formatTime :: "int \<Rightarrow> string" where
  "formatTime minutes =
     padStart2 (toString (minutes div 60)) @ '':'' @ padStart2 (toString (js_rem minutes 60))"

definition make_slot :: "int \<Rightarrow> int \<Rightarrow> TimeSlot" where
  "make_slot duration currentMinutes =
     \<lparr> start_time = formatTime currentMinutes,
       end_time = formatTime (currentMinutes + duration),
       available = True,
       staff_member_id = None \<rparr>"

text \<open>
  The \<open>for\<close> loop of \<open>generateTimeSlots\<close>. Nothing bounds the number of iterations when
  \<open>slotDuration\<close> is not positive, so the loop is a partial function: \<open>None\<close> stands for a
  call that never returns.
\<close>

partial_function (option) slot_loop ::
  "int \<Rightarrow> int \<Rightarrow> int \<Rightarrow> int \<Rightarrow> TimeSlot list \<Rightarrow> TimeSlot list option" where
  "slot_loop endTotalMinutes duration slotDuration currentMinutes slots =
     (if currentMinutes + duration \<le> endTotalMinutes
      then slot_loop endTotalMinutes duration slotDuration (currentMinutes + slotDuration)
             (slots @ [make_slot duration currentMinutes])
      else Some slots)"

declare slot_loop.simps [code]

text \<open>
  \<open>generateTimeSlots\<close>. When either bound is \<open>NaN\<close> the loop test
  \<open>currentMinutes + duration <= endTotalMinutes\<close> is false at once and the result is empty.
\<close>

definition generateTimeSlots ::
  "string \<Rightarrow> string \<Rightarrow> int \<Rightarrow> int \<Rightarrow> TimeSlot list option" where
  "generateTimeSlots startTime endTime duration bufferAfter =
     (let (startHour, startMinute) = first_two startTime;
          (endHour, endMinute) = first_two endTime;
          startTotalMinutes = js_add (js_mul startHour (Fin 60)) startMinute;
          endTotalMinutes = js_add (js_mul endHour (Fin 60)) endMinute;
          slotDuration = duration + bufferAfter
      in case (startTotalMinutes, endTotalMinutes) of
           (Fin s, Fin e) \<Rightarrow> slot_loop e duration slotDuration s []
         | _ \<Rightarrow> Some [])"

section \<open>The stored data\<close>

text \<open>
  The tables of \<open>schema.sql\<close> that the two services read and write, each a list of rows in
  table order, with the columns the services select. A nullable column is an \<open>option\<close>.
\<close>

record service_row =
  service_id :: nat
  service_business_id :: nat
  duration_minutes :: int
  capacity :: int
  requires_staff :: bool
  buffer_after_minutes :: "int option"
  service_is_active :: bool

record rule_row =
  rule_business_id :: "nat option"
  rule_staff_member_id :: "nat option"
  rule_day_of_week :: nat
  rule_start_time :: string
  rule_end_time :: string
  rule_is_active :: bool

record special_row =
  special_business_id :: "nat option"
  special_staff_member_id :: "nat option"
  special_date :: string
  special_start_time :: "string option"
  special_end_time :: "string option"
  special_is_available :: bool
  special_reason :: "string option"

datatype booking_status = pending | confirmed | cancelled | completed | no_show

record booking_row =
  booking_id :: nat
  booking_business_id :: nat
  booking_service_id :: nat
  booking_staff_member_id :: "nat option"
  customer_name :: string
  customer_email :: string
  customer_phone :: "string option"
  booking_date :: string
  booking_start_time :: string
  booking_end_time :: string
  party_size :: int
  special_requests :: "string option"
  status :: booking_status
  payment_status :: string
  cancellation_reason :: "string option"
  cancelled_at :: "int option"
  updated_at :: int

record staff_row =
  staff_id :: nat
  staff_is_active :: bool

record business_row =
  business_id :: nat
  booking_link_slug :: string
  cancellation_hours :: "int option"
  business_is_active :: bool

record database =
  services :: "service_row list"
  availability_rules :: "rule_row list"
  special_availability :: "special_row list"
  bookings :: "booking_row list"
  staff_members :: "staff_row list"
  staff_services :: "(nat \<times> nat) list"
  business :: "business_row list"

text \<open>
  The clock, the time zone of the server and the reading of date texts are JavaScript's
  \<open>Date\<close> and MySQL's \<open>NOW()\<close>, not code of the services; they are parameters. A time value
  is a number of milliseconds since 1970-01-01 00:00 UTC, as in \<open>Date\<close>.
  \<^item> \<open>getDay d\<close> is \<open>new Date(d).getDay()\<close>, the weekday with \<open>0\<close> for Sunday;
  \<^item> \<open>parseDate d\<close> is the time value of \<open>new Date(d)\<close>, and \<open>NaN\<close> when \<open>d\<close> is no date
    (an \<open>Invalid Date\<close>);
  \<^item> \<open>utcOffset t\<close> is the local time of the server minus UTC at the time value \<open>t\<close>, in
    milliseconds, and \<open>localOffset l\<close> is the same offset found from a local time \<open>l\<close>;
    both are constant where the zone has no daylight saving time;
  \<^item> \<open>beforeToday d\<close> is \<open>new Date(d) < today\<close> with \<open>today\<close> at midnight;
  \<^item> \<open>dateTimeMs d t\<close> is \<open>new Date(`${d} ${t}`).getTime()\<close> for the \<open>booking_date\<close> \<open>d\<close> and
    the \<open>start_time\<close> \<open>t\<close> of a booking row, \<open>NaN\<close> when the text is no date;
  \<^item> \<open>nowMs\<close> is the current time value.
\<close>

record calendar =
  getDay :: "string \<Rightarrow> nat"
  parseDate :: "string \<Rightarrow> jsnum"
  utcOffset :: "int \<Rightarrow> int"
  localOffset :: "int \<Rightarrow> int"
  beforeToday :: "string \<Rightarrow> bool"
  dateTimeMs :: "string \<Rightarrow> string \<Rightarrow> jsnum"
  nowMs :: int

datatype error = Error string

text \<open>Truthiness of an optional number and of an optional string.\<close>

fun truthy_num :: "nat option \<Rightarrow> bool" where
  "truthy_num None = False"
| "truthy_num (Some n) = (n \<noteq> 0)"

fun truthy_str :: "string option \<Rightarrow> bool" where
  "truthy_str None = False"
| "truthy_str (Some s) = (s \<noteq> [])"

text \<open>\<open>a || b\<close> on an optional string and on an optional number.\<close>

definition or_str :: "string option \<Rightarrow> string \<Rightarrow> string" where
  "or_str a b = (case a of None \<Rightarrow> b | Some s \<Rightarrow> if s = [] then b else s)"

definition or_int :: "int option \<Rightarrow> int \<Rightarrow> int" where
  "or_int a b = (case a of None \<Rightarrow> b | Some n \<Rightarrow> if n = 0 then b else n)"

section \<open>AvailabilityService: the day's slots\<close>

record DayAvailability =
  date :: string
  day_of_week :: nat
  time_slots :: "TimeSlot list"

text \<open>The queries of \<open>getAvailableSlots\<close> and \<open>isTimeSlotAvailable\<close>.\<close>

definition find_service :: "database \<Rightarrow> nat \<Rightarrow> nat \<Rightarrow> service_row list" where
  "find_service db serviceId businessId =
     filter (\<lambda>s. service_id s = serviceId \<and> service_business_id s = businessId
                 \<and> service_is_active s) (services db)"

definition business_rules :: "database \<Rightarrow> nat \<Rightarrow> nat \<Rightarrow> rule_row list" where
  "business_rules db businessId dayOfWeek =
     filter (\<lambda>r. rule_business_id r = Some businessId \<and> rule_day_of_week r = dayOfWeek
                 \<and> rule_is_active r) (availability_rules db)"

definition staff_rules :: "database \<Rightarrow> nat \<Rightarrow> nat \<Rightarrow> rule_row list" where
  "staff_rules db staffId dayOfWeek =
     filter (\<lambda>r. rule_staff_member_id r = Some staffId \<and> rule_day_of_week r = dayOfWeek
                 \<and> rule_is_active r) (availability_rules db)"

text \<open>The active staff members joined to the service through \<open>staff_services\<close>.\<close>

definition service_staff :: "database \<Rightarrow> nat \<Rightarrow> nat list" where
  "service_staff db serviceId =
     concat (map (\<lambda>(staffMemberId, sid).
                    if sid = serviceId
                    then map staff_id (filter (\<lambda>sm. staff_id sm = staffMemberId \<and> staff_is_active sm)
                                         (staff_members db))
                    else [])
                 (staff_services db))"

definition day_specials :: "database \<Rightarrow> nat \<Rightarrow> service_row \<Rightarrow> string \<Rightarrow> special_row list" where
  "day_specials db businessId service d =
     filter (\<lambda>sp. (special_business_id sp = Some businessId
                    \<or> (requires_staff service
                        \<and> (\<exists>(staffMemberId, sid) \<in> set (staff_services db).
                              sid = service_id service
                              \<and> special_staff_member_id sp = Some staffMemberId)))
                   \<and> special_date sp = d) (special_availability db)"

definition existing_bookings :: "database \<Rightarrow> nat \<Rightarrow> nat \<Rightarrow> string \<Rightarrow> booking_row list" where
  "existing_bookings db businessId serviceId d =
     filter (\<lambda>b. booking_business_id b = businessId \<and> booking_service_id b = serviceId
                 \<and> booking_date b = d \<and> (status b = confirmed \<or> status b = pending))
            (bookings db)"

text \<open>
  Slots for a list of rules, one \<open>generateTimeSlots\<close> call each, in order; a call that does
  not return keeps the whole computation from returning.
\<close>

fun rule_slots :: "service_row \<Rightarrow> nat option \<Rightarrow> rule_row list \<Rightarrow> TimeSlot list option" where
  "rule_slots service staffId [] = Some []"
| "rule_slots service staffId (rule # rules) =
     (case generateTimeSlots (rule_start_time rule) (rule_end_time rule)
             (duration_minutes service) (or_int (buffer_after_minutes service) 0) of
        None \<Rightarrow> None
      | Some generated \<Rightarrow>
          (case rule_slots service staffId rules of
             None \<Rightarrow> None
           | Some rest \<Rightarrow>
               Some (map (\<lambda>slot. slot\<lparr>staff_member_id := staffId\<rparr>) generated @ rest)))"

fun staff_slots :: "database \<Rightarrow> service_row \<Rightarrow> nat \<Rightarrow> nat list \<Rightarrow> TimeSlot list option" where
  "staff_slots db service dayOfWeek [] = Some []"
| "staff_slots db service dayOfWeek (staffId # others) =
     (case rule_slots service (Some staffId) (staff_rules db staffId dayOfWeek) of
        None \<Rightarrow> None
      | Some mine \<Rightarrow>
          (case staff_slots db service dayOfWeek others of
             None \<Rightarrow> None
           | Some rest \<Rightarrow> Some (mine @ rest)))"

text \<open>
  The closures of the day: a closure with both times removes the slots it overlaps; one
  without clears the list and ends the loop.
\<close>

fun apply_specials :: "special_row list \<Rightarrow> TimeSlot list \<Rightarrow> TimeSlot list" where
  "apply_specials [] availableSlots = availableSlots"
| "apply_specials (special # others) availableSlots =
     (if \<not> special_is_available special then
        (if truthy_str (special_start_time special) \<and> truthy_str (special_end_time special)
         then apply_specials others
                (filter (\<lambda>slot. \<not> timeSlotsOverlap (start_time slot) (end_time slot)
                                    (the (special_start_time special))
                                    (the (special_end_time special)))
                   availableSlots)
         else [])
      else apply_specials others availableSlots)"

text \<open>
  Marking one slot: the first overlapping booking that conflicts makes it unavailable. For a
  service without staff a booking conflicts when its own party size reaches the capacity.
\<close>

fun mark_slot :: "service_row \<Rightarrow> booking_row list \<Rightarrow> TimeSlot \<Rightarrow> TimeSlot" where
  "mark_slot service [] slot = slot"
| "mark_slot service (booking # others) slot =
     (let conflicts = timeSlotsOverlap (start_time slot) (end_time slot)
                        (booking_start_time booking) (booking_end_time booking)
      in if \<not> conflicts then mark_slot service others slot
         else if requires_staff service then
           (if staff_member_id slot \<noteq> None
               \<and> staff_member_id slot = booking_staff_member_id booking
            then slot\<lparr>available := False\<rparr>
            else mark_slot service others slot)
         else
           (if capacity service \<le> party_size booking
            then slot\<lparr>available := False\<rparr>
            else mark_slot service others slot))"

text \<open>
  \<open>Array.prototype.sort\<close> with the comparator \<open>minutes(a) - minutes(b)\<close>: the sort is stable,
  and a comparator result of \<open>NaN\<close> counts as \<open>0\<close>. \<open>a\<close> stays before \<open>b\<close> unless the
  comparator is positive.
\<close>

definition slot_after :: "TimeSlot \<Rightarrow> TimeSlot \<Rightarrow> bool" where
  "slot_after a b =
     js_less (Fin 0) (js_sub (timeStringToMinutes (start_time a))
                             (timeStringToMinutes (start_time b)))"

fun insert_slot :: "TimeSlot \<Rightarrow> TimeSlot list \<Rightarrow> TimeSlot list" where
  "insert_slot a [] = [a]"
| "insert_slot a (b # bs) = (if slot_after a b then b # insert_slot a bs else a # b # bs)"

definition sort_slots :: "TimeSlot list \<Rightarrow> TimeSlot list" where
  "sort_slots xs = foldr insert_slot xs []"

text \<open>
  The filter that keeps a slot when it is the first with its start, end and staff member.
\<close>

definition same_slot :: "TimeSlot \<Rightarrow> TimeSlot \<Rightarrow> bool" where
  "same_slot slot s =
     (start_time s = start_time slot \<and> end_time s = end_time slot
      \<and> staff_member_id s = staff_member_id slot)"

fun findIndex :: "('a \<Rightarrow> bool) \<Rightarrow> 'a list \<Rightarrow> nat option" where
  "findIndex p [] = None"
| "findIndex p (x # xs) = (if p x then Some 0 else map_option Suc (findIndex p xs))"

definition unique_slots :: "TimeSlot list \<Rightarrow> TimeSlot list" where
  "unique_slots array =
     map snd (filter (\<lambda>(index, slot). Some index = findIndex (same_slot slot) array)
                (enumerate 0 array))"

definition getAvailableSlots ::
  "calendar \<Rightarrow> database \<Rightarrow> nat \<Rightarrow> nat \<Rightarrow> string \<Rightarrow> (error + DayAvailability) option" where
  "getAvailableSlots cal db businessId serviceId d =
     (let dayOfWeek = getDay cal d in
      case find_service db serviceId businessId of
        [] \<Rightarrow> Some (Inl (Error ''Service not found''))
      | service # _ \<Rightarrow>
          (case (if requires_staff service
                 then staff_slots db service dayOfWeek (service_staff db serviceId)
                 else rule_slots service None (business_rules db businessId dayOfWeek)) of
             None \<Rightarrow> None
           | Some generated \<Rightarrow>
               (let availableSlots = apply_specials (day_specials db businessId service d) generated;
                    existingBookings = existing_bookings db businessId serviceId d;
                    marked = map (mark_slot service existingBookings) availableSlots;
                    uniqueSlots = unique_slots (sort_slots marked)
                in Some (Inr \<lparr> date = d, day_of_week = dayOfWeek, time_slots = uniqueSlots \<rparr>))))"

section \<open>AvailabilityService: checking one requested window\<close>

record slot_check =
  check_available :: bool
  check_reason :: "string option"

definition unavailable :: "string \<Rightarrow> slot_check" where
  "unavailable why = \<lparr> check_available = False, check_reason = Some why \<rparr>"

text \<open>The test applied to the weekly rules: the requested window lies inside one of them.\<close>

definition within_hours :: "string \<Rightarrow> string \<Rightarrow> rule_row list \<Rightarrow> bool" where
  "within_hours startTime endTime rules =
     list_ex (\<lambda>rule. js_ge (timeStringToMinutes startTime) (timeStringToMinutes (rule_start_time rule))
                     \<and> js_le (timeStringToMinutes endTime) (timeStringToMinutes (rule_end_time rule)))
             rules"

definition request_specials :: "database \<Rightarrow> nat \<Rightarrow> nat option \<Rightarrow> string \<Rightarrow> special_row list" where
  "request_specials db businessId staffMemberId d =
     filter (\<lambda>sp. (special_business_id sp = Some businessId
                    \<or> (truthy_num staffMemberId \<and> special_staff_member_id sp = staffMemberId))
                   \<and> special_date sp = d) (special_availability db)"

text \<open>The loop over the closures: the reason of the first closure that blocks the window.\<close>

fun closure_reason :: "string \<Rightarrow> string \<Rightarrow> special_row list \<Rightarrow> string option" where
  "closure_reason startTime endTime [] = None"
| "closure_reason startTime endTime (special # others) =
     (if \<not> special_is_available special then
        (if truthy_str (special_start_time special) \<and> truthy_str (special_end_time special)
         then (if timeSlotsOverlap startTime endTime (the (special_start_time special))
                    (the (special_end_time special))
               then Some (or_str (special_reason special) ''Special closure during requested time'')
               else closure_reason startTime endTime others)
         else Some (or_str (special_reason special) ''Business/staff not available on this date''))
      else closure_reason startTime endTime others)"

definition conflict_bookings ::
  "database \<Rightarrow> nat \<Rightarrow> nat \<Rightarrow> string \<Rightarrow> service_row \<Rightarrow> nat option \<Rightarrow> nat option
     \<Rightarrow> booking_row list" where
  "conflict_bookings db businessId serviceId d service staffMemberId excludeBookingId =
     filter (\<lambda>b. booking_business_id b = businessId \<and> booking_service_id b = serviceId
                 \<and> booking_date b = d \<and> (status b = confirmed \<or> status b = pending)
                 \<and> (requires_staff service \<and> truthy_num staffMemberId
                      \<longrightarrow> booking_staff_member_id b = staffMemberId)
                 \<and> (truthy_num excludeBookingId \<longrightarrow> Some (booking_id b) \<noteq> excludeBookingId))
            (bookings db)"

text \<open>
  The loop over the existing bookings: an overlapping booking is a conflict, unless the
  service has no staff and the requested party fits beside it.
\<close>

fun has_conflict :: "service_row \<Rightarrow> int \<Rightarrow> string \<Rightarrow> string \<Rightarrow> booking_row list \<Rightarrow> bool" where
  "has_conflict service partySize startTime endTime [] = False"
| "has_conflict service partySize startTime endTime (booking # others) =
     (if timeSlotsOverlap startTime endTime (booking_start_time booking) (booking_end_time booking)
      then (if \<not> requires_staff service \<and> partySize + party_size booking \<le> capacity service
            then has_conflict service partySize startTime endTime others
            else True)
      else has_conflict service partySize startTime endTime others)"

definition isTimeSlotAvailable ::
  "calendar \<Rightarrow> database \<Rightarrow> nat \<Rightarrow> nat \<Rightarrow> nat option \<Rightarrow> string \<Rightarrow> string \<Rightarrow> string \<Rightarrow> int
     \<Rightarrow> nat option \<Rightarrow> slot_check" where
  "isTimeSlotAvailable cal db businessId serviceId staffMemberId d startTime endTime partySize
       excludeBookingId =
     (case find_service db serviceId businessId of
        [] \<Rightarrow> unavailable ''Service not found or inactive''
      | service # _ \<Rightarrow>
          if capacity service < partySize
          then unavailable (''Party size exceeds capacity (max: '' @ toString (capacity service) @ '')'')
          else
            let dayOfWeek = getDay cal d;
                forStaff = (requires_staff service \<and> truthy_num staffMemberId);
                rules = (if forStaff then staff_rules db (the staffMemberId) dayOfWeek
                         else business_rules db businessId dayOfWeek)
            in if rules = []
               then unavailable (if forStaff then ''Staff not available on this day''
                                 else ''Business closed on this day'')
               else if \<not> within_hours startTime endTime rules
               then unavailable (if forStaff then ''Requested time is outside staff working hours''
                                 else ''Requested time is outside business hours'')
               else
                 (case closure_reason startTime endTime
                         (request_specials db businessId staffMemberId d) of
                    Some why \<Rightarrow> unavailable why
                  | None \<Rightarrow>
                      if has_conflict service partySize startTime endTime
                           (conflict_bookings db businessId serviceId d service staffMemberId
                              excludeBookingId)
                      then unavailable ''Time slot already booked''
                      else \<lparr> check_available = True, check_reason = None \<rparr>))"

definition getBusinessIdFromSlug :: "database \<Rightarrow> string \<Rightarrow> nat option" where
  "getBusinessIdFromSlug db slug =
     (case filter (\<lambda>b. booking_link_slug b = slug \<and> business_is_active b) (business db) of
        [] \<Rightarrow> None
      | b # _ \<Rightarrow> Some (business_id b))"

definition getServiceDetails :: "database \<Rightarrow> nat \<Rightarrow> nat \<Rightarrow> service_row option" where
  "getServiceDetails db serviceId businessId =
     (case find_service db serviceId businessId of [] \<Rightarrow> None | service # _ \<Rightarrow> Some service)"

definition canStaffPerformService :: "database \<Rightarrow> nat \<Rightarrow> nat \<Rightarrow> bool" where
  "canStaffPerformService db staffMemberId serviceId =
     list_ex (\<lambda>(smid, sid). smid = staffMemberId \<and> sid = serviceId
                \<and> list_ex (\<lambda>sm. staff_id sm = smid \<and> staff_is_active sm) (staff_members db))
             (staff_services db)"

record validation =
  valid :: bool
  errors :: "string list"

definition validateBookingRequest ::
  "calendar \<Rightarrow> database \<Rightarrow> nat \<Rightarrow> nat \<Rightarrow> nat option \<Rightarrow> string \<Rightarrow> string \<Rightarrow> string \<Rightarrow> int
     \<Rightarrow> nat option \<Rightarrow> validation" where
  "validateBookingRequest cal db businessId serviceId staffMemberId bookingDate startTime endTime
       partySize excludeBookingId =
     (let errors1 = (if \<not> time_format_ok startTime \<or> \<not> time_format_ok endTime
                     then [''Invalid time format. Use HH:MM''] else []);
          errors2 = errors1 @ (if js_le (timeStringToMinutes endTime) (timeStringToMinutes startTime)
                               then [''End time must be after start time''] else []);
          errors3 = errors2 @ (if beforeToday cal bookingDate
                               then [''Cannot book in the past''] else [])
      in case getServiceDetails db serviceId businessId of
           None \<Rightarrow> \<lparr> valid = False, errors = errors3 @ [''Service not found or inactive''] \<rparr>
         | Some service \<Rightarrow>
             let errors4 = errors3 @
                   (if requires_staff service then
                      (if \<not> truthy_num staffMemberId
                       then [''Staff member is required for this service'']
                       else if \<not> canStaffPerformService db (the staffMemberId) serviceId
                       then [''Selected staff member cannot perform this service'']
                       else [])
                    else []);
                 errors5 = errors4 @
                   (if errors4 = [] then
                      (let availabilityResult =
                             isTimeSlotAvailable cal db businessId serviceId staffMemberId
                               bookingDate startTime endTime partySize excludeBookingId
                       in if \<not> check_available availabilityResult
                          then [or_str (check_reason availabilityResult) ''Time slot not available'']
                          else [])
                    else [])
             in \<lparr> valid = (errors5 = []), errors = errors5 \<rparr>)"

section \<open>AvailabilityService: the week\<close>

text \<open>
  The date arithmetic of \<open>Date\<close> that \<open>getWeekAvailability\<close> uses, on time values.
  \<open>civil_from_days\<close> is the year, month and day of a day number counted from 1970-01-01;
  \<open>isoDate t\<close> is \<open>toISOString().split('T')[0]\<close>, the date of \<open>t\<close> in UTC; \<open>weekDay\<close> is the
  weekday of a time value.
\<close>

definition msPerDay :: int where
  "msPerDay = 86400000"

definition civil_from_days :: "int \<Rightarrow> int \<times> int \<times> int" where
  "civil_from_days z =
     (let z' = z + 719468;
          era = z' div 146097;
          doe = z' mod 146097;
          yoe = (doe - doe div 1460 + doe div 36524 - doe div 146096) div 365;
          y = yoe + era * 400;
          doy = doe - (365 * yoe + yoe div 4 - yoe div 100);
          mp = (5 * doy + 2) div 153;
          d = doy - (153 * mp + 2) div 5 + 1;
          m = (if mp < 10 then mp + 3 else mp - 9)
      in (if m \<le> 2 then y + 1 else y, m, d))"

definition pad_zero :: "nat \<Rightarrow> string \<Rightarrow> string" where
  "pad_zero n s = replicate (n - length s) CHR ''0'' @ s"

definition isoDate :: "int \<Rightarrow> string" where
  "isoDate t =
     (case civil_from_days (t div msPerDay) of
        (y, m, d) \<Rightarrow>
          (if 0 \<le> y \<and> y \<le> 9999 then pad_zero 4 (toString y)
           else (if y < 0 then ''-'' else ''+'') @ pad_zero 6 (toString \<bar>y\<bar>))
          @ ''-'' @ pad_zero 2 (toString m) @ ''-'' @ pad_zero 2 (toString d))"

definition weekDay :: "int \<Rightarrow> nat" where
  "weekDay t = nat ((t div msPerDay + 4) mod 7)"

text \<open>
  \<open>const currentDate = new Date(start); currentDate.setDate(start.getDate() + i)\<close>.
  \<open>getDate\<close> is the day of the month of \<open>start\<close> in local time, and \<open>setDate\<close> with that day
  plus \<open>i\<close> keeps the local time of day and moves the local date by \<open>i\<close> days (a day of the
  month past the end of the month runs on into the next one); the result is turned back
  into UTC with the offset that holds at the new local time.
\<close>

definition currentDate :: "calendar \<Rightarrow> int \<Rightarrow> nat \<Rightarrow> int" where
  "currentDate cal start i =
     (let localStart = start + utcOffset cal start;
          localCurrent = localStart + int i * msPerDay
      in localCurrent - localOffset cal localCurrent)"

text \<open>
  The loop of \<open>getWeekAvailability\<close> over the day offsets, with the day's computation as the
  argument \<open>day\<close>: its result is pushed, and a raised error is caught and an empty day pushed
  in its place, with the weekday of \<open>currentDate\<close> in local time. The date string is computed
  outside the \<open>try\<close>, and \<open>toISOString\<close> raises a \<open>RangeError\<close> on an \<open>Invalid Date\<close>. In a
  day record the \<open>Date\<close> is represented by its date in UTC.
\<close>

definition empty_day :: "calendar \<Rightarrow> int \<Rightarrow> DayAvailability" where
  "empty_day cal current =
     \<lparr> date = isoDate current, day_of_week = weekDay (current + utcOffset cal current),
       time_slots = [] \<rparr>"

fun week_days ::
  "calendar \<Rightarrow> (string \<Rightarrow> (error + DayAvailability) option) \<Rightarrow> jsnum \<Rightarrow> nat list
     \<Rightarrow> DayAvailability list \<Rightarrow> (error + DayAvailability list) option" where
  "week_days cal day start [] weekAvailability = Some (Inr weekAvailability)"
| "week_days cal day start (i # is) weekAvailability =
     (case start of
        NaN \<Rightarrow> Some (Inl (Error ''Invalid time value''))
      | Fin startTime \<Rightarrow>
          (let current = currentDate cal startTime i;
               dateString = isoDate current
           in case day dateString of
                None \<Rightarrow> None
              | Some (Inr dayAvailability) \<Rightarrow>
                  week_days cal day start is (weekAvailability @ [dayAvailability])
              | Some (Inl err) \<Rightarrow>
                  week_days cal day start is (weekAvailability @ [empty_day cal current])))"

definition getWeekAvailability ::
  "calendar \<Rightarrow> database \<Rightarrow> string \<Rightarrow> nat \<Rightarrow> string \<Rightarrow> (error + DayAvailability list) option" where
  "getWeekAvailability cal db businessSlug serviceId startDate =
     (let businessId = getBusinessIdFromSlug db businessSlug in
      if \<not> truthy_num businessId then Some (Inl (Error ''Business not found''))
      else week_days cal (getAvailableSlots cal db (the businessId) serviceId)
             (parseDate cal startDate) [0..<7] [])"

section \<open>BookingService: update and cancel\<close>

text \<open>
  \<open>bookingService.ts\<close> holds the class twice. The model follows the first one; the second
  differs in the wording of two messages and allows two more fields in an update, and has
  the same email test, the same test for a cancelled booking, the same cancellation window
  and the same unchecked write of the status.
\<close>

text \<open>
  \<open>getBookingById\<close>: the booking joined with its business and its service (inner joins, so a
  booking without either is not found). The business row carries \<open>cancellation_hours\<close>.
\<close>

definition getBookingById :: "database \<Rightarrow> nat \<Rightarrow> (booking_row \<times> business_row) option" where
  "getBookingById db bookingId =
     (case filter (\<lambda>b. booking_id b = bookingId) (bookings db) of
        [] \<Rightarrow> None
      | b # _ \<Rightarrow>
          (case filter (\<lambda>bus. business_id bus = booking_business_id b) (business db) of
             [] \<Rightarrow> None
           | bus # _ \<Rightarrow>
               (if list_ex (\<lambda>s. service_id s = booking_service_id b) (services db)
                then Some (b, bus) else None)))"

text \<open>
  \<open>BookingUpdateInput\<close>, with the fields of \<open>ALLOWED_UPDATE_FIELDS\<close>; a field that is not
  given is \<open>None\<close>. The other fields of the type are never read.
\<close>

record booking_update =
  new_customer_name :: "string option"
  new_customer_email :: "string option"
  new_customer_phone :: "string option"
  new_booking_date :: "string option"
  new_start_time :: "string option"
  new_end_time :: "string option"
  new_party_size :: "int option"
  new_special_requests :: "string option"
  new_status :: "booking_status option"
  new_payment_status :: "string option"
  new_cancellation_reason :: "string option"

definition no_update :: booking_update where
  "no_update =
     \<lparr> new_customer_name = None, new_customer_email = None, new_customer_phone = None,
       new_booking_date = None, new_start_time = None, new_end_time = None,
       new_party_size = None, new_special_requests = None, new_status = None,
       new_payment_status = None, new_cancellation_reason = None \<rparr>"

text \<open>The number of \<open>field = ?\<close> entries the loop over the allowed fields collects.\<close>

definition updateFields :: "booking_update \<Rightarrow> nat" where
  "updateFields updates =
     length (filter id
       [new_customer_name updates \<noteq> None, new_customer_email updates \<noteq> None,
        new_customer_phone updates \<noteq> None, new_booking_date updates \<noteq> None,
        new_start_time updates \<noteq> None, new_end_time updates \<noteq> None,
        new_party_size updates \<noteq> None, new_special_requests updates \<noteq> None,
        new_status updates \<noteq> None, new_payment_status updates \<noteq> None,
        new_cancellation_reason updates \<noteq> None])"

text \<open>The \<open>UPDATE bookings SET ... WHERE id = ?\<close> statement, on one row.\<close>

definition set_fields :: "booking_update \<Rightarrow> bool \<Rightarrow> int \<Rightarrow> booking_row \<Rightarrow> booking_row" where
  "set_fields updates stampCancelled now b =
     b\<lparr> customer_name := (case new_customer_name updates of None \<Rightarrow> customer_name b | Some v \<Rightarrow> v),
        customer_email := (case new_customer_email updates of None \<Rightarrow> customer_email b | Some v \<Rightarrow> v),
        customer_phone := (case new_customer_phone updates of None \<Rightarrow> customer_phone b | Some v \<Rightarrow> Some v),
        booking_date := (case new_booking_date updates of None \<Rightarrow> booking_date b | Some v \<Rightarrow> v),
        booking_start_time := (case new_start_time updates of None \<Rightarrow> booking_start_time b | Some v \<Rightarrow> v),
        booking_end_time := (case new_end_time updates of None \<Rightarrow> booking_end_time b | Some v \<Rightarrow> v),
        party_size := (case new_party_size updates of None \<Rightarrow> party_size b | Some v \<Rightarrow> v),
        special_requests := (case new_special_requests updates of None \<Rightarrow> special_requests b | Some v \<Rightarrow> Some v),
        status := (case new_status updates of None \<Rightarrow> status b | Some v \<Rightarrow> v),
        payment_status := (case new_payment_status updates of None \<Rightarrow> payment_status b | Some v \<Rightarrow> v),
        cancellation_reason := (case new_cancellation_reason updates of None \<Rightarrow> cancellation_reason b | Some v \<Rightarrow> Some v),
        cancelled_at := (if stampCancelled then Some now else cancelled_at b),
        updated_at := now \<rparr>"

definition write_booking :: "database \<Rightarrow> nat \<Rightarrow> (booking_row \<Rightarrow> booking_row) \<Rightarrow> database" where
  "write_booking db bookingId f =
     db\<lparr> bookings := map (\<lambda>b. if booking_id b = bookingId then f b else b) (bookings db) \<rparr>"

text \<open>
  The result \<open>{ success, data, errors }\<close>: \<open>Inl errors\<close> when \<open>success\<close> is false, \<open>Inr data\<close>
  otherwise, paired with the database after the call.
\<close>

type_synonym booking_result = "string list + (booking_row \<times> business_row) option"

definition updateBooking ::
  "calendar \<Rightarrow> database \<Rightarrow> nat \<Rightarrow> booking_update \<Rightarrow> booking_result \<times> database" where
  "updateBooking cal db bookingId updates =
     (case getBookingById db bookingId of
        None \<Rightarrow> (Inl [''Booking not found''], db)
      | Some (existingBooking, _) \<Rightarrow>
          let validation =
                (if truthy_str (new_booking_date updates) \<or> truthy_str (new_start_time updates)
                    \<or> truthy_str (new_end_time updates)
                    \<or> (case new_party_size updates of None \<Rightarrow> False | Some n \<Rightarrow> n \<noteq> 0)
                 then
                   (let newDate = or_str (new_booking_date updates) (booking_date existingBooking);
                        newStartTime = or_str (new_start_time updates) (booking_start_time existingBooking);
                        newEndTime = or_str (new_end_time updates) (booking_end_time existingBooking);
                        newPartySize = or_int (new_party_size updates) (party_size existingBooking)
                    in validateBookingRequest cal db (booking_business_id existingBooking)
                         (booking_service_id existingBooking)
                         (booking_staff_member_id existingBooking)
                         newDate newStartTime newEndTime newPartySize (Some bookingId))
                 else \<lparr> valid = True, errors = [] \<rparr>)
          in if \<not> valid validation then (Inl (errors validation), db)
             else if updateFields updates = 0 then (Inl [''No fields to update''], db)
             else
               let stampCancelled =
                     (new_status updates = Some cancelled \<and> status existingBooking \<noteq> cancelled);
                   db' = write_booking db bookingId (set_fields updates stampCancelled (nowMs cal))
               in (Inr (getBookingById db' bookingId), db'))"

text \<open>
  \<open>cancelBooking\<close>. \<open>hoursUntilBooking < cancellationHours\<close> compares a quotient by
  \<open>1000 * 60 * 60\<close> with a whole number of hours; the model compares the milliseconds with the
  hours times \<open>3600000\<close>, which is the same test. The comparison is false when the booking's
  date and time give no valid \<open>Date\<close>.
\<close>

definition cancelBooking ::
  "calendar \<Rightarrow> database \<Rightarrow> nat \<Rightarrow> string \<Rightarrow> string option \<Rightarrow> booking_result \<times> database" where
  "cancelBooking cal db bookingId customerEmail reason =
     (case getBookingById db bookingId of
        None \<Rightarrow> (Inl [''Booking not found''], db)
      | Some (booking, bus) \<Rightarrow>
          if toLowerCase (customer_email booking) \<noteq> toLowerCase customerEmail
          then (Inl [''Email does not match booking''], db)
          else if status booking = cancelled
          then (Inl [''Booking already cancelled''], db)
          else
            let bookingDateTime = dateTimeMs cal (booking_date booking) (booking_start_time booking);
                millisUntilBooking = js_sub bookingDateTime (Fin (nowMs cal));
                cancellationHours = or_int (cancellation_hours bus) 24
            in if js_less millisUntilBooking (Fin (cancellationHours * 3600000))
               then (Inl [''Must cancel at least '' @ toString cancellationHours
                            @ '' hours before booking''], db)
               else updateBooking cal db bookingId
                      (no_update\<lparr> new_status := Some cancelled,
                                  new_cancellation_reason := Some (or_str reason ''Customer cancellation'') \<rparr>))"

section \<open>A sample business\<close>

text \<open>
  Concrete data on which the properties below are exercised: a restaurant with one
  capacity-based service (60 minutes, capacity 4), open on Monday and on Wednesday from 09:00
  to 12:00, closed for the whole of Wednesday 2024-12-25, with three bookings on Monday
  2024-12-23 and a cancellation window of 24 hours.

  The sample calendars read a date text of the form \<open>YYYY-MM-DD\<close> as midnight UTC of that
  day, as \<open>new Date\<close> does, and nothing else. The text that \<open>cancelBooking\<close> builds from a
  booking row is no such text: the connection of \<open>config/database.ts\<close> sets no \<open>dateStrings\<close>,
  so the \<open>booking_date\<close> of a row is a \<open>Date\<close> object, the template puts its \<open>toString\<close> form
  (like \<open>Mon Dec 23 2024 00:00:00 GMT+0000 (Coordinated Universal Time)\<close>) before the start
  time, and \<open>new Date\<close> of a text with a second time of day after the zone is an
  \<open>Invalid Date\<close>. So \<open>dateTimeMs\<close> is \<open>NaN\<close> in the sample calendars.
\<close>

definition days_from_civil :: "int \<Rightarrow> int \<Rightarrow> int \<Rightarrow> int" where
  "days_from_civil y m d =
     (let y' = (if m \<le> 2 then y - 1 else y);
          era = y' div 400;
          yoe = y' mod 400;
          doy = (153 * (if 2 < m then m - 3 else m + 9) + 2) div 5 + d - 1;
          doe = yoe * 365 + yoe div 4 - yoe div 100 + doy
      in era * 146097 + doe - 719468)"

fun parse_iso_date :: "string \<Rightarrow> jsnum" where
  "parse_iso_date [y1, y2, y3, y4, s1, m1, m2, s2, d1, d2] =
     (if list_all is_digit [y1, y2, y3, y4, m1, m2, d1, d2] \<and> s1 = CHR ''-'' \<and> s2 = CHR ''-''
         \<and> 1 \<le> dec [m1, m2] \<and> dec [m1, m2] \<le> 12 \<and> 1 \<le> dec [d1, d2] \<and> dec [d1, d2] \<le> 31
      then Fin (days_from_civil (int (dec [y1, y2, y3, y4])) (int (dec [m1, m2]))
                  (int (dec [d1, d2])) * msPerDay)
      else NaN)"
| "parse_iso_date _ = NaN"

text \<open>
  The calendar of a server whose zone has the offsets \<open>off\<close> (from a time value) and \<open>offLocal\<close>
  (from a local time), at the time \<open>now\<close>. \<open>getDay\<close> is the weekday in local time.
\<close>

definition zone_calendar :: "(int \<Rightarrow> int) \<Rightarrow> (int \<Rightarrow> int) \<Rightarrow> int \<Rightarrow> calendar" where
  "zone_calendar off offLocal now =
     \<lparr> getDay = (\<lambda>d. case parse_iso_date d of NaN \<Rightarrow> 0 | Fin t \<Rightarrow> weekDay (t + off t)),
       parseDate = parse_iso_date,
       utcOffset = off,
       localOffset = offLocal,
       beforeToday = (\<lambda>d. False),
       dateTimeMs = (\<lambda>d t. NaN),
       nowMs = now \<rparr>"

text \<open>A server in UTC, on Sunday 2024-12-22 at 12:00.\<close>

definition sample_calendar :: calendar where
  "sample_calendar =
     zone_calendar (\<lambda>t. 0) (\<lambda>t. 0) (days_from_civil 2024 12 22 * msPerDay + 12 * 3600000)"

text \<open>
  A server in the zone Europe/Berlin in the spring of 2024: one hour ahead of UTC until
  2024-03-31 01:00 UTC, two hours from then on. A local time that the change skips is read
  with the offset before the change.
\<close>

definition berlin_change :: int where
  "berlin_change = days_from_civil 2024 3 31 * msPerDay + 3600000"

definition berlin_calendar :: calendar where
  "berlin_calendar =
     zone_calendar (\<lambda>t. if t < berlin_change then 3600000 else 7200000)
       (\<lambda>l. if l < berlin_change + 7200000 then 3600000 else 7200000)
       (days_from_civil 2024 3 29 * msPerDay)"

definition sample_service :: service_row where
  "sample_service =
     \<lparr> service_id = 1, service_business_id = 1, duration_minutes = 60, capacity = 4,
       requires_staff = False, buffer_after_minutes = Some 0, service_is_active = True \<rparr>"

definition sample_booking :: "nat \<Rightarrow> string \<Rightarrow> string \<Rightarrow> int \<Rightarrow> booking_status \<Rightarrow> booking_row" where
  "sample_booking n startTime endTime partySize st =
     \<lparr> booking_id = n, booking_business_id = 1, booking_service_id = 1,
       booking_staff_member_id = None, customer_name = ''Ann'',
       customer_email = ''Ann@Example.com'', customer_phone = None,
       booking_date = ''2024-12-23'', booking_start_time = startTime,
       booking_end_time = endTime, party_size = partySize, special_requests = None,
       status = st, payment_status = ''pending'', cancellation_reason = None,
       cancelled_at = None, updated_at = 0 \<rparr>"

definition sample_rule :: "nat \<Rightarrow> rule_row" where
  "sample_rule dayOfWeek =
     \<lparr> rule_business_id = Some 1, rule_staff_member_id = None, rule_day_of_week = dayOfWeek,
       rule_start_time = ''09:00'', rule_end_time = ''12:00'', rule_is_active = True \<rparr>"

definition sample_db :: database where
  "sample_db =
     \<lparr> services = [sample_service],
       availability_rules = [sample_rule 1, sample_rule 3],
       special_availability =
         [\<lparr> special_business_id = Some 1, special_staff_member_id = None,
            special_date = ''2024-12-25'', special_start_time = None, special_end_time = None,
            special_is_available = False, special_reason = Some ''Christmas'' \<rparr>],
       bookings = [sample_booking 1 ''10:00'' ''11:00'' 2 confirmed,
                   sample_booking 2 ''11:00'' ''12:00'' 4 pending,
                   sample_booking 3 ''09:00'' ''10:00'' 4 cancelled],
       staff_members = [],
       staff_services = [],
       business = [\<lparr> business_id = 1, booking_link_slug = ''bistro'',
                     cancellation_hours = Some 24, business_is_active = True \<rparr>] \<rparr>"

section \<open>Properties of the time arithmetic\<close>

subsection \<open>Digits, conversion and formatting\<close>









lemma split_colon_none: "CHR '':'' \<notin> set s \<Longrightarrow> split_colon s = [s]"
  by (induction s) auto

lemma split_colon_one:
  "CHR '':'' \<notin> set hs \<Longrightarrow> split_colon (hs @ CHR '':'' # ms) = hs # split_colon ms"
  by (induction hs) auto

lemma digits_no_colon: "list_all is_digit s \<Longrightarrow> CHR '':'' \<notin> set s"
  by (auto simp: list_all_iff is_digit_def)

lemma first_two_digits:
  assumes "list_all is_digit hs" "list_all is_digit ms"
  shows "first_two (hs @ CHR '':'' # ms) = (Fin (int (dec hs)), Fin (int (dec ms)))"
  using assms
  by (simp add: first_two_def split_colon_one split_colon_none digits_no_colon js_Number_def)

lemma timeStringToMinutes_digits:
  assumes "list_all is_digit hs" "list_all is_digit ms"
  shows "timeStringToMinutes (hs @ CHR '':'' # ms) = Fin (int (dec hs) * 60 + int (dec ms))"
  using assms by (simp add: timeStringToMinutes_def first_two_digits)


lemma generateTimeSlots_minutes:
  "generateTimeSlots startTime endTime duration bufferAfter =
     (case (timeStringToMinutes startTime, timeStringToMinutes endTime) of
        (Fin s, Fin e) \<Rightarrow> slot_loop e duration (duration + bufferAfter) s []
      | _ \<Rightarrow> Some [])"
  by (simp add: generateTimeSlots_def timeStringToMinutes_def split: prod.splits)







lemma low_digit_val: "low_digit k c \<Longrightarrow> digit_val c \<le> k"
  by (auto simp: low_digit_def digit_val_def)

lemma low_digit_is_digit: "low_digit k c \<Longrightarrow> k \<le> 9 \<Longrightarrow> is_digit c"
  by (auto simp: low_digit_def is_digit_def)

lemma is_digit_val: "is_digit c \<Longrightarrow> digit_val c \<le> 9"
  by (auto simp: is_digit_def digit_val_def)

lemma dec_one: "dec [a] = digit_val a"
  by (simp add: dec_def)

lemma dec_two: "dec [a, b] = 10 * digit_val a + digit_val b"
  by (simp add: dec_def)

subsection \<open>Parsing a time of day\<close>

text \<open>
  C4 (as amended). For every string that passes the format test of the validator,
  \<open>timeStringToMinutes\<close> returns the minutes since midnight: the string is an hour part
  below 24, a colon and a minute part below 60, and the result is sixty times the hour
  plus the minute. The function itself performs no test and raises nothing.
\<close>

theorem timeStringToMinutes_valid:
  assumes "time_format_ok timeStr"
  shows "\<exists>hs ms. timeStr = hs @ '':'' @ ms \<and> list_all is_digit hs \<and> list_all is_digit ms
            \<and> dec hs < 24 \<and> dec ms < 60
            \<and> timeStringToMinutes timeStr = Fin (int (dec hs) * 60 + int (dec ms))"
  using assms
proof (cases timeStr rule: time_format_ok.cases)
  case (1 h c m1 m2)
  with assms have a: "is_digit h" "c = CHR '':''" "low_digit 5 m1" "is_digit m2" by auto
  let ?hs = "[h]" and ?ms = "[m1, m2]"
  have d: "list_all is_digit ?hs" "list_all is_digit ?ms"
    using a low_digit_is_digit[of 5 m1] by auto
  have b: "dec ?hs < 24" "dec ?ms < 60"
    using is_digit_val[OF a(1)] low_digit_val[OF a(3)] is_digit_val[OF a(4)]
    by (auto simp: dec_one dec_two)
  have "timeStr = ?hs @ '':'' @ ?ms" using 1 a by simp
  moreover have "timeStringToMinutes timeStr = Fin (int (dec ?hs) * 60 + int (dec ?ms))"
    using timeStringToMinutes_digits[OF d] 1 a by simp
  ultimately show ?thesis using d b by blast
next
  case (2 h1 h2 c m1 m2)
  with assms have a: "(low_digit 1 h1 \<and> is_digit h2) \<or> (h1 = CHR ''2'' \<and> low_digit 3 h2)"
    "c = CHR '':''" "low_digit 5 m1" "is_digit m2" by auto
  let ?hs = "[h1, h2]" and ?ms = "[m1, m2]"
  have d: "list_all is_digit ?hs" "list_all is_digit ?ms"
    using a low_digit_is_digit[of 5 m1] low_digit_is_digit[of 1 h1] low_digit_is_digit[of 3 h2]
    by (auto simp: is_digit_def)
  have "dec ?hs < 24"
    using a(1) low_digit_val[of 1 h1] low_digit_val[of 3 h2] is_digit_val[of h2]
    by (auto simp: dec_two digit_val_def)
  moreover have "dec ?ms < 60"
    using low_digit_val[OF a(3)] is_digit_val[OF a(4)] by (auto simp: dec_two)
  moreover have "timeStr = ?hs @ '':'' @ ?ms" using 2 a by simp
  moreover have "timeStringToMinutes timeStr = Fin (int (dec ?hs) * 60 + int (dec ?ms))"
    using timeStringToMinutes_digits[OF d] 2 a by simp
  ultimately show ?thesis using d by blast
qed (use assms in auto)

theorem timeStringToMinutes_valid_witness:
  "time_format_ok ''09:30''
   \<and> (\<exists>hs ms. ''09:30'' = hs @ '':'' @ ms \<and> list_all is_digit hs \<and> list_all is_digit ms
          \<and> dec hs < 24 \<and> dec ms < 60
          \<and> timeStringToMinutes ''09:30'' = Fin (int (dec hs) * 60 + int (dec ms)))"
proof -
  have ok: "time_format_ok ''09:30''"
    by (simp add: is_digit_def low_digit_def)
  from ok timeStringToMinutes_valid[OF ok] show ?thesis by (rule conjI)
qed

text \<open>
  A string that fails the format test is converted all the same: \<open>25:00\<close> gives 1500.
\<close>

theorem timeStringToMinutes_unchecked:
  "\<not> time_format_ok ''25:00'' \<and> timeStringToMinutes ''25:00'' = Fin 1500"
  by (simp add: low_digit_def is_digit_def timeStringToMinutes_def first_two_def js_Number_def
      dec_def digit_val_def)

subsection \<open>Slot generation\<close>















section \<open>Properties of the day's slots\<close>



lemma slot_loop_available:
  "slot_loop e d st c acc = Some r \<Longrightarrow> list_all available acc \<longrightarrow> list_all available r"
proof (rule slot_loop.raw_induct
    [where P = "\<lambda>e d st c acc r. list_all available acc \<longrightarrow> list_all available r"])
  fix f e' d' st' c' acc' r'
  assume ih: "\<And>e d st c acc y. f e d st c acc = Some y
                \<Longrightarrow> list_all available acc \<longrightarrow> list_all available y"
    and eq: "(if c' + d' \<le> e' then f e' d' st' (c' + st') (acc' @ [make_slot d' c'])
              else Some acc') = Some r'"
  show "list_all available acc' \<longrightarrow> list_all available r'"
  proof (cases "c' + d' \<le> e'")
    case True
    with eq have "f e' d' st' (c' + st') (acc' @ [make_slot d' c']) = Some r'" by simp
    from ih[OF this] show ?thesis by (simp add: make_slot_def)
  next
    case False
    with eq show ?thesis by simp
  qed
qed

lemma generateTimeSlots_available:
  assumes "generateTimeSlots startTime endTime duration bufferAfter = Some slots"
  shows "list_all available slots"
proof (cases "timeStringToMinutes startTime")
  case NaN
  with assms show ?thesis by (simp add: generateTimeSlots_minutes)
next
  case (Fin s)
  show ?thesis
  proof (cases "timeStringToMinutes endTime")
    case NaN
    with Fin assms show ?thesis by (simp add: generateTimeSlots_minutes)
  next
    case (Fin e)
    with \<open>timeStringToMinutes startTime = Fin s\<close> assms
    have "slot_loop e duration (duration + bufferAfter) s [] = Some slots"
      by (simp add: generateTimeSlots_minutes)
    from slot_loop_available[OF this] show ?thesis by simp
  qed
qed

lemma rule_slots_available:
  "rule_slots service staffId rules = Some slots \<Longrightarrow> list_all available slots"
proof (induction rules arbitrary: slots)
  case Nil
  then show ?case by simp
next
  case (Cons rule rules)
  then show ?case
    by (auto split: option.splits dest!: generateTimeSlots_available simp: list_all_iff)
qed

lemma apply_specials_subset: "set (apply_specials specials slots) \<subseteq> set slots"
proof (induction specials arbitrary: slots)
  case Nil
  show ?case by simp
next
  case (Cons special specials)
  have "set (apply_specials specials (filter p slots)) \<subseteq> set slots" for p
    using Cons[of "filter p slots"] by auto
  with Cons[of slots] show ?case by auto
qed


lemma set_insert_slot: "set (insert_slot a xs) = insert a (set xs)"
  by (induction xs) auto

lemma set_sort_slots: "set (sort_slots xs) = set xs"
  by (induction xs) (simp_all add: sort_slots_def set_insert_slot)

lemma set_unique_slots: "set (unique_slots xs) \<subseteq> set xs"
  by (auto simp: unique_slots_def in_set_enumerate_eq)

lemma mark_slot_capacity:
  assumes "\<not> requires_staff service"
  shows "mark_slot service existing slot =
     (if \<exists>booking \<in> set existing.
           timeSlotsOverlap (start_time slot) (end_time slot)
             (booking_start_time booking) (booking_end_time booking)
           \<and> capacity service \<le> party_size booking
      then slot\<lparr>available := False\<rparr> else slot)"
  using assms by (induction existing) (auto simp: Let_def)

lemma has_conflict_capacity:
  assumes "\<not> requires_staff service"
  shows "has_conflict service partySize startTime endTime existing =
     (\<exists>booking \<in> set existing.
        timeSlotsOverlap startTime endTime (booking_start_time booking) (booking_end_time booking)
        \<and> capacity service < partySize + party_size booking)"
  using assms by (induction existing) auto

lemma conflict_bookings_no_staff:
  assumes "\<not> requires_staff service"
  shows "conflict_bookings db businessId serviceId d service staffMemberId None =
         existing_bookings db businessId serviceId d"
  using assms by (simp add: conflict_bookings_def existing_bookings_def)

subsection \<open>The sample Monday\<close>

lemma sample_find_service: "find_service sample_db 1 1 = [sample_service]"
  by code_simp

lemma sample_no_staff: "\<not> requires_staff sample_service"
  by (simp add: sample_service_def)

lemma sample_monday:
  "getAvailableSlots sample_calendar sample_db 1 1 ''2024-12-23'' =
     Some (Inr \<lparr> date = ''2024-12-23'', day_of_week = 1,
                 time_slots =
                   [\<lparr> start_time = ''09:00'', end_time = ''10:00'', available = True,
                      staff_member_id = None \<rparr>,
                    \<lparr> start_time = ''10:00'', end_time = ''11:00'', available = True,
                      staff_member_id = None \<rparr>,
                    \<lparr> start_time = ''11:00'', end_time = ''12:00'', available = False,
                      staff_member_id = None \<rparr>] \<rparr>)"
  by code_simp

subsection \<open>Marking slots of a capacity-based service\<close>

lemma findIndex_first:
  "x \<in> set xs \<Longrightarrow> p x \<Longrightarrow> \<exists>j. findIndex p xs = Some j \<and> j < length xs \<and> p (xs ! j)"
proof (induction xs)
  case Nil
  then show ?case by simp
next
  case (Cons y ys)
  show ?case
  proof (cases "p y")
    case True
    then show ?thesis by simp
  next
    case False
    with Cons.prems have "x \<in> set ys" by auto
    from Cons.IH[OF this Cons.prems(2)] False show ?thesis by auto
  qed
qed

lemma same_slot_class: "same_slot a b \<Longrightarrow> same_slot b = same_slot a"
  by (auto simp: same_slot_def fun_eq_iff)

lemma unique_slots_keeps:
  assumes "x \<in> set xs" and "\<forall>b \<in> set xs. same_slot x b \<longrightarrow> b = x"
  shows "x \<in> set (unique_slots xs)"
proof -
  have "same_slot x x" by (simp add: same_slot_def)
  from findIndex_first[OF assms(1), of "same_slot x", OF this]
  obtain j where j: "findIndex (same_slot x) xs = Some j" "j < length xs" "same_slot x (xs ! j)"
    by blast
  from j(2) have mem: "xs ! j \<in> set xs" by simp
  with assms(2) j(3) have eq: "xs ! j = x" by blast
  from j(2) have "(j, xs ! j) \<in> set (enumerate 0 xs)"
    by (simp add: in_set_enumerate_eq)
  with eq j(1) have "(j, x) \<in> set (filter (\<lambda>(index, slot). Some index = findIndex (same_slot slot) xs)
                                  (enumerate 0 xs))"
    by simp
  then show ?thesis unfolding unique_slots_def by force
qed

lemma rule_slots_no_staff:
  "rule_slots service None rules = Some slots
     \<Longrightarrow> list_all (\<lambda>slot. staff_member_id slot = None) slots"
proof (induction rules arbitrary: slots)
  case Nil
  then show ?case by simp
next
  case (Cons rule rules)
  then show ?case
    by (auto split: option.splits simp: list_all_iff)
qed

lemma candidate_equal:
  assumes "available a" "available b" "staff_member_id a = None" "staff_member_id b = None"
    and "start_time a = start_time b" "end_time a = end_time b"
  shows "a = (b :: TimeSlot)"
  using assms by (cases a; cases b) simp


text \<open>
  C3. For a service without staff, the candidate slots of a day are those generated from the
  weekly rules of the business that the closures of the date leave. When their generation
  returns, \<open>getAvailableSlots\<close> returns, and the slots of the day are exactly the
  candidates, each with \<open>available = false\<close> when one of the pending or confirmed bookings
  of that business, service and date overlaps it and has, by itself, a party size of at
  least the capacity, and with \<open>available = true\<close> otherwise. Party sizes of several
  overlapping bookings are not added. (When the generation does not return, neither does
  the call.)
\<close>

theorem getAvailableSlots_marks_capacity:
  assumes "find_service db serviceId businessId = service # others"
    and "\<not> requires_staff service"
  shows "case rule_slots service None (business_rules db businessId (getDay cal d)) of
           None \<Rightarrow> getAvailableSlots cal db businessId serviceId d = None
         | Some generated \<Rightarrow>
             (\<exists>day. getAvailableSlots cal db businessId serviceId d = Some (Inr day)
                \<and> set (time_slots day) =
                    (\<lambda>slot. slot\<lparr> available :=
                       \<not> (\<exists>booking \<in> set (existing_bookings db businessId serviceId d).
                             timeSlotsOverlap (start_time slot) (end_time slot)
                               (booking_start_time booking) (booking_end_time booking)
                             \<and> capacity service \<le> party_size booking) \<rparr>)
                    ` set (apply_specials (day_specials db businessId service d) generated))"
proof -
  let ?existing = "existing_bookings db businessId serviceId d"
  let ?rules = "business_rules db businessId (getDay cal d)"
  let ?conflict = "\<lambda>slot. \<exists>booking \<in> set ?existing.
                             timeSlotsOverlap (start_time slot) (end_time slot)
                               (booking_start_time booking) (booking_end_time booking)
                             \<and> capacity service \<le> party_size booking"
  have unfolded: "getAvailableSlots cal db businessId serviceId d =
      (case rule_slots service None ?rules of
         None \<Rightarrow> None
       | Some generated \<Rightarrow>
           Some (Inr \<lparr> date = d, day_of_week = getDay cal d,
                       time_slots = unique_slots (sort_slots (map (mark_slot service ?existing)
                         (apply_specials (day_specials db businessId service d) generated))) \<rparr>))"
    using assms(1,2) by (simp add: getAvailableSlots_def Let_def split: option.split)
  show ?thesis
  proof (cases "rule_slots service None ?rules")
    case None
    then show ?thesis unfolding unfolded by simp
  next
    case (Some generated)
    let ?candidates = "apply_specials (day_specials db businessId service d) generated"
    let ?marked = "map (mark_slot service ?existing) ?candidates"
    have cand: "available c \<and> staff_member_id c = None" if "c \<in> set ?candidates" for c
    proof -
      from that apply_specials_subset[of "day_specials db businessId service d" generated]
      have "c \<in> set generated" by (rule subsetD[rotated])
      with rule_slots_available[OF Some] rule_slots_no_staff[OF Some]
      show ?thesis by (simp add: list_all_iff)
    qed
    have mark: "mark_slot service ?existing c = c\<lparr> available := \<not> ?conflict c \<rparr>"
      if "c \<in> set ?candidates" for c
      using cand[OF that] by (simp add: mark_slot_capacity[OF assms(2)])
    have marked: "set ?marked = (\<lambda>slot. slot\<lparr> available := \<not> ?conflict slot \<rparr>) ` set ?candidates"
      using mark by (auto simp: image_iff)
    have distinct_keys: "b = a"
      if a: "a \<in> set ?marked" and b: "b \<in> set ?marked" and same: "same_slot a b" for a b
    proof -
      from a obtain ca where ca: "ca \<in> set ?candidates" "a = mark_slot service ?existing ca"
        by auto
      from b obtain cb where cb: "cb \<in> set ?candidates" "b = mark_slot service ?existing cb"
        by auto
      from same ca(2) cb(2) mark[OF ca(1)] mark[OF cb(1)]
      have "start_time ca = start_time cb" "end_time ca = end_time cb"
        by (simp_all add: same_slot_def)
      with cand[OF ca(1)] cand[OF cb(1)] have "ca = cb" by (intro candidate_equal) simp_all
      with ca(2) cb(2) show ?thesis by simp
    qed
    have "set (unique_slots (sort_slots ?marked)) = set ?marked"
    proof
      show "set (unique_slots (sort_slots ?marked)) \<subseteq> set ?marked"
        using set_unique_slots[of "sort_slots ?marked"] by (simp only: set_sort_slots)
      show "set ?marked \<subseteq> set (unique_slots (sort_slots ?marked))"
      proof
        fix x assume x: "x \<in> set ?marked"
        then have "x \<in> set (sort_slots ?marked)" by (simp only: set_sort_slots)
        moreover have "\<forall>b \<in> set (sort_slots ?marked). same_slot x b \<longrightarrow> b = x"
          using distinct_keys[OF x] by (simp only: set_sort_slots) blast
        ultimately show "x \<in> set (unique_slots (sort_slots ?marked))"
          by (rule unique_slots_keeps)
      qed
    qed
    with marked have "set (unique_slots (sort_slots ?marked))
        = (\<lambda>slot. slot\<lparr> available := \<not> ?conflict slot \<rparr>) ` set ?candidates"
      by (simp only:)
    then show ?thesis unfolding unfolded Some by simp
  qed
qed


theorem getAvailableSlots_marks_capacity_witness:
  "find_service sample_db 1 1 = sample_service # []
   \<and> \<not> requires_staff sample_service
   \<and> (\<exists>day. getAvailableSlots sample_calendar sample_db 1 1 ''2024-12-23'' = Some (Inr day)
          \<and> set (time_slots day) =
              set [\<lparr> start_time = ''09:00'', end_time = ''10:00'', available = True,
                      staff_member_id = None \<rparr>,
                   \<lparr> start_time = ''10:00'', end_time = ''11:00'', available = True,
                      staff_member_id = None \<rparr>,
                   \<lparr> start_time = ''11:00'', end_time = ''12:00'', available = False,
                      staff_member_id = None \<rparr>])"
proof -
  let ?generated = "[\<lparr> start_time = ''09:00'', end_time = ''10:00'', available = True,
                      staff_member_id = None \<rparr>,
                   \<lparr> start_time = ''10:00'', end_time = ''11:00'', available = True,
                      staff_member_id = None \<rparr>,
                   \<lparr> start_time = ''11:00'', end_time = ''12:00'', available = True,
                      staff_member_id = None \<rparr>]"
  have g: "rule_slots sample_service None
             (business_rules sample_db 1 (getDay sample_calendar ''2024-12-23''))
           = Some ?generated"
    by code_simp
  have img: "(\<lambda>slot. slot\<lparr> available :=
                       \<not> (\<exists>booking \<in> set (existing_bookings sample_db 1 1 ''2024-12-23'').
                             timeSlotsOverlap (start_time slot) (end_time slot)
                               (booking_start_time booking) (booking_end_time booking)
                             \<and> capacity sample_service \<le> party_size booking) \<rparr>)
              ` set (apply_specials (day_specials sample_db 1 sample_service ''2024-12-23'')
                       ?generated)
             = set [\<lparr> start_time = ''09:00'', end_time = ''10:00'', available = True,
                      staff_member_id = None \<rparr>,
                   \<lparr> start_time = ''10:00'', end_time = ''11:00'', available = True,
                      staff_member_id = None \<rparr>,
                   \<lparr> start_time = ''11:00'', end_time = ''12:00'', available = False,
                      staff_member_id = None \<rparr>]"
    by code_simp
  from getAvailableSlots_marks_capacity[OF sample_find_service sample_no_staff,
      of sample_calendar "''2024-12-23''"]
  have "\<exists>day. getAvailableSlots sample_calendar sample_db 1 1 ''2024-12-23'' = Some (Inr day)
          \<and> set (time_slots day) =
              set [\<lparr> start_time = ''09:00'', end_time = ''10:00'', available = True,
                      staff_member_id = None \<rparr>,
                   \<lparr> start_time = ''10:00'', end_time = ''11:00'', available = True,
                      staff_member_id = None \<rparr>,
                   \<lparr> start_time = ''11:00'', end_time = ''12:00'', available = False,
                      staff_member_id = None \<rparr>]"
    unfolding g option.case img .
  with sample_find_service sample_no_staff show ?thesis by simp
qed

subsection \<open>A closure for the whole day\<close>






subsection \<open>The validator's conflict test and the marking of slots\<close>

text \<open>
  C1 (as amended). For a service without staff and a request that excludes no booking, both
  tests run over the same pending and confirmed bookings of the business, service and date.
  The validator reports a conflict when an overlapping booking and the requested party
  together exceed the capacity; the marking makes the slot unavailable when an overlapping
  booking alone reaches the capacity. For a requested party of 1 the two agree, and for any
  party of at least 1 a slot marked unavailable is a conflict for the validator.
\<close>

theorem validator_conflict_vs_marking:
  assumes "\<not> requires_staff service" and "available slot"
  shows "(has_conflict service 1 (start_time slot) (end_time slot)
            (conflict_bookings db businessId serviceId d service staffMemberId None)
          = (\<not> available (mark_slot service (existing_bookings db businessId serviceId d) slot)))
       \<and> (1 \<le> partySize
            \<longrightarrow> \<not> available (mark_slot service (existing_bookings db businessId serviceId d) slot)
            \<longrightarrow> has_conflict service partySize (start_time slot) (end_time slot)
                  (conflict_bookings db businessId serviceId d service staffMemberId None))"
proof -
  let ?existing = "existing_bookings db businessId serviceId d"
  have same: "conflict_bookings db businessId serviceId d service staffMemberId None = ?existing"
    using assms(1) by (rule conflict_bookings_no_staff)
  have marked: "(\<not> available (mark_slot service ?existing slot)) =
      (\<exists>booking \<in> set ?existing.
         timeSlotsOverlap (start_time slot) (end_time slot)
           (booking_start_time booking) (booking_end_time booking)
         \<and> capacity service \<le> party_size booking)"
    using assms(2) by (simp add: mark_slot_capacity[OF assms(1)])
  have one: "capacity service < 1 + p \<longleftrightarrow> capacity service \<le> p" for p :: int
    by linarith
  show ?thesis
    unfolding same marked has_conflict_capacity[OF assms(1)]
    by (auto simp: one)
qed

theorem validator_conflict_vs_marking_witness:
  "\<not> requires_staff sample_service
   \<and> has_conflict sample_service 1 ''11:00'' ''12:00''
        (conflict_bookings sample_db 1 1 ''2024-12-23'' sample_service None None)
   \<and> \<not> available (mark_slot sample_service (existing_bookings sample_db 1 1 ''2024-12-23'')
          \<lparr> start_time = ''11:00'', end_time = ''12:00'', available = True,
            staff_member_id = None \<rparr>)"
proof -
  let ?slot = "\<lparr> start_time = ''11:00'', end_time = ''12:00'', available = True,
            staff_member_id = None \<rparr>"
  have av: "available ?slot" by simp
  have m: "\<not> available (mark_slot sample_service
                (existing_bookings sample_db 1 1 ''2024-12-23'') ?slot)"
    by code_simp
  from validator_conflict_vs_marking[OF sample_no_staff av, of sample_db 1 1 "''2024-12-23''" None 1] m
  have "has_conflict sample_service 1 ''11:00'' ''12:00''
        (conflict_bookings sample_db 1 1 ''2024-12-23'' sample_service None None)"
    by simp
  with sample_no_staff m show ?thesis by simp
qed

text \<open>
  The claim as stated fails for a larger party: on the sample Monday the booking from 10:00
  to 11:00 has a party of 2 and the capacity is 4, so the slot is marked available, but a
  request for a party of 3 in that window is rejected as already booked.
\<close>

theorem validator_stricter_than_marking:
  "isTimeSlotAvailable sample_calendar sample_db 1 1 None ''2024-12-23'' ''10:00'' ''11:00'' 3 None
     = \<lparr> check_available = False, check_reason = Some ''Time slot already booked'' \<rparr>
   \<and> getAvailableSlots sample_calendar sample_db 1 1 ''2024-12-23'' =
     Some (Inr \<lparr> date = ''2024-12-23'', day_of_week = 1,
                 time_slots =
                   [\<lparr> start_time = ''09:00'', end_time = ''10:00'', available = True,
                      staff_member_id = None \<rparr>,
                    \<lparr> start_time = ''10:00'', end_time = ''11:00'', available = True,
                      staff_member_id = None \<rparr>,
                    \<lparr> start_time = ''11:00'', end_time = ''12:00'', available = False,
                      staff_member_id = None \<rparr>] \<rparr>)"
  by code_simp

section \<open>Properties of update and cancel\<close>

lemma sample_booking_1:
  "getBookingById sample_db 1 =
     Some (sample_booking 1 ''10:00'' ''11:00'' 2 confirmed,
           \<lparr> business_id = 1, booking_link_slug = ''bistro'',
             cancellation_hours = Some 24, business_is_active = True \<rparr>)"
  by code_simp

lemma sample_booking_3:
  "getBookingById sample_db 3 =
     Some (sample_booking 3 ''09:00'' ''10:00'' 4 cancelled,
           \<lparr> business_id = 1, booking_link_slug = ''bistro'',
             cancellation_hours = Some 24, business_is_active = True \<rparr>)"
  by code_simp

subsection \<open>Cancelling with another email address\<close>

text \<open>
  C7. When the requester's email address, compared without regard to letter case, is not the
  customer email of the booking, \<open>cancelBooking\<close> returns the error
  \<open>Email does not match booking\<close> and the database is the one it was given: no booking
  changes its status or any other field.
\<close>

theorem cancelBooking_email_mismatch:
  assumes "getBookingById db bookingId = Some (booking, bus)"
    and "toLowerCase (customer_email booking) \<noteq> toLowerCase customerEmail"
  shows "cancelBooking cal db bookingId customerEmail reason =
           (Inl [''Email does not match booking''], db)"
  using assms by (simp add: cancelBooking_def)

theorem cancelBooking_email_mismatch_witness:
  "toLowerCase (customer_email (sample_booking 1 ''10:00'' ''11:00'' 2 confirmed))
     \<noteq> toLowerCase ''bob@example.com''
   \<and> cancelBooking sample_calendar sample_db 1 ''bob@example.com'' None =
       (Inl [''Email does not match booking''], sample_db)"
proof -
  have ne: "toLowerCase (customer_email (sample_booking 1 ''10:00'' ''11:00'' 2 confirmed))
     \<noteq> toLowerCase ''bob@example.com''"
    by code_simp
  from cancelBooking_email_mismatch[OF sample_booking_1 ne] ne show ?thesis by simp
qed

subsection \<open>The cancellation window\<close>

lemma cancelBooking_policy:
  assumes "getBookingById db bookingId = Some (booking, bus)"
    and "toLowerCase (customer_email booking) = toLowerCase customerEmail"
    and "status booking \<noteq> cancelled"
  shows "cancelBooking cal db bookingId customerEmail reason =
     (if js_less (js_sub (dateTimeMs cal (booking_date booking) (booking_start_time booking))
                   (Fin (nowMs cal)))
           (Fin (or_int (cancellation_hours bus) 24 * 3600000))
      then (Inl [''Must cancel at least '' @ toString (or_int (cancellation_hours bus) 24)
                   @ '' hours before booking''], db)
      else updateBooking cal db bookingId
             (no_update\<lparr> new_status := Some cancelled,
                         new_cancellation_reason := Some (or_str reason ''Customer cancellation'') \<rparr>))"
  using assms by (simp add: cancelBooking_def Let_def)

lemma cancelBooking_invalid_date:
  assumes "getBookingById db bookingId = Some (booking, bus)"
    and "toLowerCase (customer_email booking) = toLowerCase customerEmail"
    and "status booking \<noteq> cancelled"
    and "dateTimeMs cal (booking_date booking) (booking_start_time booking) = NaN"
  shows "cancelBooking cal db bookingId customerEmail reason =
           updateBooking cal db bookingId
             (no_update\<lparr> new_status := Some cancelled,
                         new_cancellation_reason := Some (or_str reason ''Customer cancellation'') \<rparr>)"
  using assms by (simp add: cancelBooking_policy)

text \<open>
  C8. The window is not enforced on a booking row as the connection returns it. The sample
  booking 1 starts on 2024-12-23 at 10:00, the clock stands at 2024-12-22 12:00, 22 hours
  before, and the business asks for 24 hours; the text built from the row is no date, the
  difference is \<open>NaN\<close>, the comparison with 24 is false, and the booking is cancelled.
\<close>

theorem cancelBooking_window_not_enforced:
  "cancellation_hours (snd (the (getBookingById sample_db 1))) = Some 24
   \<and> js_sub (js_add (parse_iso_date ''2024-12-23'') (Fin (10 * 3600000)))
         (Fin (nowMs sample_calendar)) = Fin (22 * 3600000)
   \<and> dateTimeMs sample_calendar ''2024-12-23'' ''10:00'' = NaN
   \<and> map status (bookings sample_db) = [confirmed, pending, cancelled]
   \<and> map status (bookings (snd (cancelBooking sample_calendar sample_db 1
                                    ''ann@example.com'' None)))
       = [cancelled, pending, cancelled]"
  by code_simp

subsection \<open>Status changes\<close>

lemma status_set_fields:
  "status (set_fields updates stampCancelled now b) =
     (case new_status updates of None \<Rightarrow> status b | Some v \<Rightarrow> v)"
  by (simp add: set_fields_def)

lemma updateBooking_database:
  "snd (updateBooking cal db bookingId updates) = db
   \<or> (\<exists>stampCancelled.
         snd (updateBooking cal db bookingId updates) =
           write_booking db bookingId (set_fields updates stampCancelled (nowMs cal)))"
  by (auto simp: updateBooking_def Let_def split: option.splits prod.splits)

lemma write_booking_status:
  assumes "new_status updates = None"
  shows "map status (bookings (write_booking db bookingId (set_fields updates stampCancelled now)))
         = map status (bookings db)"
  using assms by (simp add: write_booking_def status_set_fields comp_def)

text \<open>
  C2 (as amended). \<open>cancelBooking\<close> on a booking that is already cancelled returns an
  error and writes nothing; and \<open>updateBooking\<close> with a patch that carries no status leaves
  the status of every booking as it is, whatever that status is. Neither operation checks a
  transition: a patch that carries a status is written as given.
\<close>

theorem terminal_status_kept:
  assumes "getBookingById db bookingId = Some (booking, bus)"
  shows "(status booking = cancelled \<longrightarrow>
            (\<exists>errs. cancelBooking cal db bookingId customerEmail reason = (Inl errs, db)))
       \<and> (new_status updates = None \<longrightarrow>
            map status (bookings (snd (updateBooking cal db bookingId updates)))
              = map status (bookings db))"
proof (intro conjI impI)
  assume "status booking = cancelled"
  with assms show "\<exists>errs. cancelBooking cal db bookingId customerEmail reason = (Inl errs, db)"
    by (simp add: cancelBooking_def)
next
  assume none: "new_status updates = None"
  from updateBooking_database[of cal db bookingId updates]
  show "map status (bookings (snd (updateBooking cal db bookingId updates)))
          = map status (bookings db)"
    using write_booking_status[OF none] by auto
qed

theorem terminal_status_kept_witness:
  "status (sample_booking 3 ''09:00'' ''10:00'' 4 cancelled) = cancelled
   \<and> (\<exists>errs. cancelBooking sample_calendar sample_db 3 ''ann@example.com'' None
               = (Inl errs, sample_db))
   \<and> map status (bookings (snd (updateBooking sample_calendar sample_db 3
         (no_update\<lparr> new_customer_name := Some ''Anna'' \<rparr>))))
       = map status (bookings sample_db)"
proof -
  have c: "status (sample_booking 3 ''09:00'' ''10:00'' 4 cancelled) = cancelled"
    by (simp add: sample_booking_def)
  have n: "new_status (no_update\<lparr> new_customer_name := Some ''Anna'' \<rparr>) = None"
    by (simp add: no_update_def)
  from terminal_status_kept[OF sample_booking_3, of sample_calendar "''ann@example.com''" None
      "no_update\<lparr> new_customer_name := Some ''Anna'' \<rparr>"] c n
  show ?thesis by simp
qed

text \<open>
  The claim as stated fails: \<open>updateBooking\<close> with the patch \<open>{status: 'pending'}\<close> re-opens
  the cancelled sample booking 3, and \<open>cancelBooking\<close> moves a completed booking to
  cancelled when the cancellation window allows it.
\<close>

theorem terminal_status_left:
  "map status (bookings sample_db) = [confirmed, pending, cancelled]
   \<and> map status (bookings (snd (updateBooking sample_calendar sample_db 3
         (no_update\<lparr> new_status := Some pending \<rparr>))))
       = [confirmed, pending, pending]
   \<and> map status (bookings (snd (cancelBooking (sample_calendar\<lparr> nowMs := 0 \<rparr>)
         (sample_db\<lparr> bookings := [sample_booking 1 ''10:00'' ''11:00'' 2 completed] \<rparr>)
         1 ''ann@example.com'' None)))
       = [cancelled]"
  by code_simp

section \<open>Properties of the week\<close>

lemma currentDate_fixed_offset:
  assumes "\<forall>t. utcOffset cal t = k" and "\<forall>l. localOffset cal l = k"
  shows "currentDate cal start i = start + int i * msPerDay"
  using assms by (simp add: currentDate_def Let_def)

text \<open>
  Whatever the zone, the loop pushes one record for each offset, in order: the record of the
  day's computation where it returned one, and the empty record of that date where it raised
  an error. A day that fails changes no other record and does not end the loop.
\<close>

lemma week_days_collects:
  assumes "\<forall>i \<in> set offsets. day (isoDate (currentDate cal start i)) \<noteq> None"
  shows "week_days cal day (Fin start) offsets weekAvailability =
     Some (Inr (weekAvailability @
        map (\<lambda>i. case day (isoDate (currentDate cal start i)) of
                    Some (Inr dayAvailability) \<Rightarrow> dayAvailability
                  | _ \<Rightarrow> empty_day cal (currentDate cal start i)) offsets))"
  using assms
proof (induction offsets arbitrary: weekAvailability)
  case Nil
  show ?case by simp
next
  case (Cons i offsets)
  from Cons.prems have r: "day (isoDate (currentDate cal start i)) \<noteq> None" by simp
  from Cons.prems have rest:
    "\<forall>i \<in> set offsets. day (isoDate (currentDate cal start i)) \<noteq> None" by simp
  from r obtain res where res: "day (isoDate (currentDate cal start i)) = Some res" by blast
  show ?case
  proof (cases res)
    case (Inl err)
    with res Cons.IH[OF rest] show ?thesis by (simp add: Let_def)
  next
    case (Inr dayAvailability)
    with res Cons.IH[OF rest] show ?thesis by (simp add: Let_def)
  qed
qed

text \<open>
  In a zone without a change of offset the seven dates are those of the seven days from the
  start date on.
\<close>

lemma getWeekAvailability_fixed_offset:
  assumes "getBusinessIdFromSlug db businessSlug = Some businessId" and "businessId \<noteq> 0"
    and "parseDate cal startDate = Fin start"
    and "\<forall>t. utcOffset cal t = k" and "\<forall>l. localOffset cal l = k"
    and "\<forall>i \<in> set [0..<7].
           getAvailableSlots cal db businessId serviceId (isoDate (start + int i * msPerDay)) \<noteq> None"
  shows "getWeekAvailability cal db businessSlug serviceId startDate =
     Some (Inr (map (\<lambda>i. case getAvailableSlots cal db businessId serviceId
                                 (isoDate (start + int i * msPerDay)) of
                            Some (Inr dayAvailability) \<Rightarrow> dayAvailability
                          | _ \<Rightarrow> empty_day cal (start + int i * msPerDay)) [0..<7]))"
proof -
  have cur: "currentDate cal start i = start + int i * msPerDay" for i
    using assms(4,5) by (rule currentDate_fixed_offset)
  have ret: "\<forall>i \<in> set [0..<7].
           getAvailableSlots cal db businessId serviceId (isoDate (currentDate cal start i)) \<noteq> None"
    using assms(6) unfolding cur .
  have "week_days cal (getAvailableSlots cal db businessId serviceId) (Fin start) [0..<7] [] =
     Some (Inr ([] @ map (\<lambda>i. case getAvailableSlots cal db businessId serviceId
                                 (isoDate (start + int i * msPerDay)) of
                            Some (Inr dayAvailability) \<Rightarrow> dayAvailability
                          | _ \<Rightarrow> empty_day cal (start + int i * msPerDay)) [0..<7]))"
    using week_days_collects[OF ret, of "[]"] unfolding cur .
  then show ?thesis
    using assms(1-3) by (simp add: getWeekAvailability_def Let_def)
qed

text \<open>
  C9. With a server in the zone Europe/Berlin and the start date 2024-03-30, the week
  contains the day before the change to summer time: the local date is moved by whole days
  and read back in UTC, and from the third record on the time value lies an hour before
  midnight UTC. \<open>getWeekAvailability\<close> returns seven records, but asks for 2024-03-31 twice
  and never for 2024-04-05. On a server in UTC the seven dates are consecutive.
\<close>

theorem getWeekAvailability_repeats_date:
  "map_option (map_sum id (map date))
     (getWeekAvailability berlin_calendar sample_db ''bistro'' 1 ''2024-03-30'')
     = Some (Inr [''2024-03-30'', ''2024-03-31'', ''2024-03-31'', ''2024-04-01'',
                  ''2024-04-02'', ''2024-04-03'', ''2024-04-04''])
   \<and> map_option (map_sum id (map date))
     (getWeekAvailability sample_calendar sample_db ''bistro'' 1 ''2024-03-30'')
     = Some (Inr [''2024-03-30'', ''2024-03-31'', ''2024-04-01'', ''2024-04-02'',
                  ''2024-04-03'', ''2024-04-04'', ''2024-04-05''])"
  by code_simp

end
